theory Spec2Isabelle
  imports Main
begin

section \<open>The autolock controller of \<open>src/components/AppLocked.tsx\<close>\<close>

text \<open>
  The component keeps its state in React hooks. The model keeps the same pieces in one
  record and turns every handler of the component into a function from state to state.
  Calls that leave the component (the in-app browser, the bottom sheet, global actions,
  haptics) are appended, in call order, to the \<open>effects\<close> trace.
\<close>

subsection \<open>Data\<close>

text \<open>\<^verbatim>\<open>const enum SLIDES { button, passwordForm }\<close>\<close>

datatype SLIDES = button | passwordForm

datatype effect =
    BottomSheet_show
  | BottomSheet_hide
  | InAppBrowser_show
  | InAppBrowser_hide
  | setIsPinAccepted
  | clearIsPinAccepted
  | vibrateOnSuccess
  | submitAppLockActivityEvent

text \<open>
  The props of the component (\<open>StateProps\<close>, without the theme, which only selects a
  logo) together with the build-time constants the component branches on. An optional
  prop is an \<open>option\<close>: \<open>None\<close> is JavaScript's \<open>undefined\<close>.
  \<open>AUTOLOCK_OPTIONS_LIST\<close> is imported from \<open>../config\<close> and is a parameter here: the
  list of (value, period in ms) pairs. \<open>hasInAppBrowser\<close> says whether
  \<open>getInAppBrowser()\<close> returns an object (the calls on it are guarded by \<open>?.\<close>).
\<close>

record env =
  isNonNativeBiometricAuthEnabled :: bool
  autolockValue :: "string option"
  isHardwareAccount :: "bool option"
  AUTOLOCK_OPTIONS_LIST :: "(string \<times> int) list"
  DEBUG :: bool
  IS_CAPACITOR :: bool
  IS_DELEGATED_BOTTOM_SHEET :: bool
  IS_DELEGATING_BOTTOM_SHEET :: bool
  hasInAppBrowser :: bool

text \<open>
  The hook state of one mounted component: the two \<open>useFlag\<close> flags, the
  \<open>lastActivityTime\<close> ref (milliseconds, as \<open>Date.now()\<close> gives them), the two
  \<open>useState\<close> cells, whether the exit transition of the lock overlay is running, and
  the trace of outside calls.
\<close>

record state =
  isLocked :: bool
  shouldRenderUi :: bool
  lastActivityTime :: int
  slideForBiometricAuth :: SLIDES
  passwordError :: string
  closeTransitionPending :: bool
  effects :: "effect list"

definition WINDOW_EVENTS_LATENCY :: int where
  "WINDOW_EVENTS_LATENCY = 5000"

definition INTERVAL_CHECK_PERIOD :: int where
  "INTERVAL_CHECK_PERIOD = 5000"

text \<open>JavaScript truthiness of an optional boolean: \<open>undefined\<close> and \<open>false\<close> are falsy.\<close>

fun truthy :: "bool option \<Rightarrow> bool" where
  "truthy None = False"
| "truthy (Some b) = b"

text \<open>The destructuring default \<^verbatim>\<open>autolockValue = 'never'\<close> of the parameter list.\<close>

definition autolockValueOrDefault :: "env \<Rightarrow> string" where
  "autolockValueOrDefault e = (case autolockValue e of None \<Rightarrow> ''never'' | Some v \<Rightarrow> v)"

text \<open>
  \<^verbatim>\<open>AUTOLOCK_OPTIONS_LIST.find((option) => option.value === autolockValue)!.period\<close>:
  \<open>None\<close> when no option has the value, where the property access on \<open>undefined\<close> throws
  and the component does not render.
\<close>

definition autolockPeriod :: "env \<Rightarrow> int option" where
  "autolockPeriod e =
     map_option snd (find (\<lambda>option. fst option = autolockValueOrDefault e) (AUTOLOCK_OPTIONS_LIST e))"

subsection \<open>Mounting\<close>

text \<open>
  The initial hook values (lines 78 to 84). \<open>now\<close> is \<open>Date.now()\<close> at the first render,
  \<open>background\<close> is \<open>isBackgroundModeActive()\<close> there.
\<close>

definition initialState :: "env \<Rightarrow> int \<Rightarrow> bool \<Rightarrow> state" where
  "initialState e now background =
     (let locked = (autolockValueOrDefault e \<noteq> ''never'' \<and> \<not> truthy (isHardwareAccount e)) in
      \<lparr> isLocked = locked,
        shouldRenderUi = locked,
        lastActivityTime = now,
        slideForBiometricAuth = (if background then button else passwordForm),
        passwordError = '''',
        closeTransitionPending = False,
        effects = [] \<rparr>)"

text \<open>The first render as a whole: it fails when the period lookup throws.\<close>

definition AppLocked_mount :: "env \<Rightarrow> int \<Rightarrow> bool \<Rightarrow> state option" where
  "AppLocked_mount e now background =
     (case autolockPeriod e of
        None \<Rightarrow> None
      | Some _ \<Rightarrow> Some (initialState e now background))"

subsection \<open>Hook setters and outside calls\<close>

text \<open>
  Modelled from the spec: the hook \<open>useFlag\<close> is imported from \<open>../hooks/useFlag\<close> and
  its code is not part of the component. The specification has the state machine own
  one locked/unlocked boolean that \<open>lock\<close> sets and unlocking clears; the hook gives
  the flag, a setter to \<open>true\<close> and a setter to \<open>false\<close>, here for the lock flag and for
  the overlay flag. \<open>useState\<close> gives a cell with its setter.
\<close>

definition lock :: "state \<Rightarrow> state" where
  "lock s = s\<lparr>isLocked := True\<rparr>"

definition unlock :: "state \<Rightarrow> state" where
  "unlock s = s\<lparr>isLocked := False\<rparr>"

definition showUi :: "state \<Rightarrow> state" where
  "showUi s = s\<lparr>shouldRenderUi := True\<rparr>"

definition hideUi :: "state \<Rightarrow> state" where
  "hideUi s = s\<lparr>shouldRenderUi := False\<rparr>"

definition setSlideForBiometricAuth :: "SLIDES \<Rightarrow> state \<Rightarrow> state" where
  "setSlideForBiometricAuth v s = s\<lparr>slideForBiometricAuth := v\<rparr>"

definition setPasswordError :: "string \<Rightarrow> state \<Rightarrow> state" where
  "setPasswordError v s = s\<lparr>passwordError := v\<rparr>"

definition call :: "effect \<Rightarrow> state \<Rightarrow> state" where
  "call x s = s\<lparr>effects := effects s @ [x]\<rparr>"

subsection \<open>The handlers\<close>

text \<open>Lines 86 to 92.\<close>

definition afterUnlockCallback :: "env \<Rightarrow> state \<Rightarrow> state" where
  "afterUnlockCallback e s =
     (let s1 = hideUi s;
          s2 = setSlideForBiometricAuth button s1;
          s3 = (if hasInAppBrowser e then call InAppBrowser_show s2 else s2);
          s4 = call clearIsPinAccepted s3
      in if IS_DELEGATING_BOTTOM_SHEET e then call BottomSheet_show s4 else s4)"

text \<open>Lines 100 to 108.\<close>

definition handleLock :: "env \<Rightarrow> state \<Rightarrow> state" where
  "handleLock e s =
     (let s1 =
        (if autolockValueOrDefault e \<noteq> ''never'' \<and> \<not> truthy (isHardwareAccount e) then
           (let a = lock s;
                b = showUi a;
                c = (if IS_DELEGATING_BOTTOM_SHEET e then call BottomSheet_hide b else b)
            in if hasInAppBrowser e then call InAppBrowser_hide c else c)
         else s)
      in setSlideForBiometricAuth button s1)"

text \<open>Lines 112 to 114.\<close>

definition handleChangeSlideForBiometricAuth :: "state \<Rightarrow> state" where
  "handleChangeSlideForBiometricAuth s = setSlideForBiometricAuth passwordForm s"

text \<open>
  The outcome of an awaited call: it resolves to a value, or it rejects, and then the
  \<open>await\<close> throws and the rest of the handler does not run.
\<close>

datatype 'a awaited = Resolves 'a | Rejects

text \<open>
  Lines 116 to 129. The handler awaits two calls and has no \<open>try\<close>/\<open>catch\<close>.
  \<open>verify\<close> is the outcome of \<open>callApi('verifyPassword', password)\<close>; the handler only
  tests the truthiness of what it resolves to: \<open>Some True\<close>, \<open>Some False\<close>, or \<open>None\<close>
  for \<open>undefined\<close>, the value of a call that could not reach the service. \<open>haptic\<close> is
  the outcome of \<open>vibrateOnSuccess(true)\<close>, which is called, and awaited, on a Capacitor
  build only. The code after each \<open>await\<close> reads no component state, so the handler is
  one step of the model.
\<close>

definition handleSubmitPassword ::
  "env \<Rightarrow> bool option awaited \<Rightarrow> unit awaited \<Rightarrow> state \<Rightarrow> state" where
  "handleSubmitPassword e verify haptic s =
     (case verify of
        Rejects \<Rightarrow> s
      | Resolves result \<Rightarrow>
          if \<not> truthy result then setPasswordError ''Wrong password, please try again.'' s
          else if IS_CAPACITOR e then
            (let s1 = call vibrateOnSuccess (call setIsPinAccepted s)
             in case haptic of Rejects \<Rightarrow> s1 | Resolves _ \<Rightarrow> unlock s1)
          else unlock s)"

definition handlePasswordChange :: "state \<Rightarrow> state" where
  "handlePasswordChange s = setPasswordError [] s"

text \<open>Lines 133 to 139; \<open>now\<close> is \<open>Date.now()\<close> when the handler runs.\<close>

definition handleActivity :: "env \<Rightarrow> int \<Rightarrow> state \<Rightarrow> state" where
  "handleActivity e now s =
     (if IS_DELEGATED_BOTTOM_SHEET e then call submitAppLockActivityEvent s
      else s\<lparr>lastActivityTime := now\<rparr>)"

text \<open>
  Lines 161 to 170. The effect registers an interval unless the context is delegated;
  the result is the period of the interval it registers, if any.
\<close>

definition intervalCheckEffect :: "env \<Rightarrow> int option" where
  "intervalCheckEffect e =
     (if IS_DELEGATED_BOTTOM_SHEET e then None else Some INTERVAL_CHECK_PERIOD)"

text \<open>
  The callback of that interval, run at time \<open>now\<close>. Without a period the component
  never rendered, and there is no callback to run.
\<close>

definition intervalCallback :: "env \<Rightarrow> int \<Rightarrow> state \<Rightarrow> state" where
  "intervalCallback e now s =
     (case autolockPeriod e of
        None \<Rightarrow> s
      | Some period \<Rightarrow>
          if \<not> isLocked s \<and> now - lastActivityTime s > period then handleLock e s else s)"

subsection \<open>Imported hooks\<close>

datatype host_notification = EnteredBackground | ReturnedToForeground

text \<open>
  Modelled from the spec: the hook \<open>useBackgroundMode\<close> is imported from
  \<open>../hooks/useBackgroundMode\<close> and its code is not part of the component. The
  specification describes a subscription to the host's "entered background" and
  "returned to foreground" transitions; the hook takes two optional callbacks, in that
  order, and runs the one that belongs to the notification.
\<close>

definition useBackgroundMode ::
  "(state \<Rightarrow> state) option \<Rightarrow> (state \<Rightarrow> state) option \<Rightarrow> host_notification \<Rightarrow> state \<Rightarrow> state" where
  "useBackgroundMode onBlur onFocus n s =
     (case (case n of EnteredBackground \<Rightarrow> onBlur | ReturnedToForeground \<Rightarrow> onFocus) of
        None \<Rightarrow> s
      | Some callback \<Rightarrow> callback s)"

text \<open>
  Modelled from the spec: the hook \<open>useShowTransition\<close> is imported from
  \<open>../hooks/useShowTransition\<close> and its code is not part of the component. The
  specification says the lock overlay is hidden after its exit transition completes:
  when a render sees the flag gone from open to closed the exit transition starts, a
  render that sees the flag open cancels it, and its completion runs the callback once.
\<close>

definition useShowTransition :: "bool \<Rightarrow> state \<Rightarrow> state" where
  "useShowTransition wasOpen s =
     (if isLocked s then s\<lparr>closeTransitionPending := False\<rparr>
      else if wasOpen then s\<lparr>closeTransitionPending := True\<rparr>
      else s)"

definition onCloseTransitionEnd :: "env \<Rightarrow> state \<Rightarrow> state" where
  "onCloseTransitionEnd e s =
     (if closeTransitionPending s
      then afterUnlockCallback e (s\<lparr>closeTransitionPending := False\<rparr>)
      else s)"

subsection \<open>Events\<close>

text \<open>
  What can happen to a mounted component: a throttled activity event (from a window
  listener or the activity signal), a firing of the interval, a password submission
  with the outcomes of its two awaited calls, an edit of the password input, a click that asks for the
  password form, a host notification, the end of the exit transition, and a call of the
  debug hook \<open>window.lock\<close>. The model accepts every event in every state, which is more
  than the rendered tree allows.
\<close>

datatype event =
    ActivityThrottled int
  | IntervalTick int
  | SubmitPassword "bool option awaited" "unit awaited"
  | PasswordChange
  | ChangeSlide
  | Host host_notification
  | CloseTransitionEnd
  | WindowLock

definition dispatch :: "env \<Rightarrow> event \<Rightarrow> state \<Rightarrow> state" where
  "dispatch e ev s =
     (case ev of
        ActivityThrottled now \<Rightarrow> handleActivity e now s
      | IntervalTick now \<Rightarrow>
          (case intervalCheckEffect e of None \<Rightarrow> s | Some _ \<Rightarrow> intervalCallback e now s)
      | SubmitPassword verify haptic \<Rightarrow> handleSubmitPassword e verify haptic s
      | PasswordChange \<Rightarrow> handlePasswordChange s
      | ChangeSlide \<Rightarrow> handleChangeSlideForBiometricAuth s
      | Host n \<Rightarrow> useBackgroundMode None (Some handleChangeSlideForBiometricAuth) n s
      | CloseTransitionEnd \<Rightarrow> onCloseTransitionEnd e s
      | WindowLock \<Rightarrow> if DEBUG e then handleLock e s else s)"

text \<open>One event and the render that follows it.\<close>

definition step :: "env \<Rightarrow> event \<Rightarrow> state \<Rightarrow> state" where
  "step e ev s = useShowTransition (isLocked s) (dispatch e ev s)"

fun run :: "env \<Rightarrow> event list \<Rightarrow> state \<Rightarrow> state" where
  "run e [] s = s"
| "run e (ev # evs) s = run e evs (step e ev s)"


subsection \<open>The words of the specification\<close>

text \<open>
  Autolock is enabled when a value is configured and it is not the sentinel; the account
  is hardware-backed when the selector says \<open>true\<close>.
\<close>

definition spec_autolock_never :: "env \<Rightarrow> bool" where
  "spec_autolock_never e = (autolockValue e = None \<or> autolockValue e = Some ''never'')"

definition spec_hardware_backed :: "env \<Rightarrow> bool" where
  "spec_hardware_backed e = (isHardwareAccount e = Some True)"

subsection \<open>Example configurations\<close>

text \<open>
  A list of options of the shape the component expects, and a configuration built on it:
  a web build with an in-app browser, in the primary or in a delegated context.
\<close>

definition example_options :: "(string \<times> int) list" where
  "example_options = [(''never'', 0), (''1'', 30000), (''2'', 180000), (''3'', 1800000)]"

definition example_env :: "string option \<Rightarrow> bool option \<Rightarrow> bool \<Rightarrow> env" where
  "example_env value hardware delegated =
     \<lparr> isNonNativeBiometricAuthEnabled = False,
       autolockValue = value,
       isHardwareAccount = hardware,
       AUTOLOCK_OPTIONS_LIST = example_options,
       DEBUG = True,
       IS_CAPACITOR = False,
       IS_DELEGATED_BOTTOM_SHEET = delegated,
       IS_DELEGATING_BOTTOM_SHEET = False,
       hasInAppBrowser = True \<rparr>"

text \<open>A locked component that shows the password form, last active at time 0.\<close>

definition example_locked :: state where
  "example_locked =
     \<lparr> isLocked = True,
       shouldRenderUi = True,
       lastActivityTime = 0,
       slideForBiometricAuth = passwordForm,
       passwordError = [],
       closeTransitionPending = False,
       effects = [] \<rparr>"

section \<open>Basic facts\<close>

lemmas setter_defs =
  lock_def unlock_def showUi_def hideUi_def setSlideForBiometricAuth_def
  setPasswordError_def call_def

lemmas handler_defs =
  afterUnlockCallback_def handleLock_def handleChangeSlideForBiometricAuth_def
  handleSubmitPassword_def handlePasswordChange_def handleActivity_def
  intervalCheckEffect_def intervalCallback_def useBackgroundMode_def
  useShowTransition_def onCloseTransitionEnd_def

lemmas example_defs = example_options_def example_env_def example_locked_def

lemma truthy_hardware: "truthy (isHardwareAccount e) = spec_hardware_backed e"
  by (cases "isHardwareAccount e") (auto simp: spec_hardware_backed_def)

lemma value_never: "(autolockValueOrDefault e = ''never'') = spec_autolock_never e"
  by (cases "autolockValue e") (auto simp: autolockValueOrDefault_def spec_autolock_never_def)

text \<open>When the guard of \<open>handleLock\<close> fails, the handler only resets the slide.\<close>

lemma handleLock_guard_fails:
  "spec_autolock_never e \<or> spec_hardware_backed e \<Longrightarrow>
     handleLock e s = s\<lparr>slideForBiometricAuth := button\<rparr>"
  by (auto simp: handleLock_def Let_def setter_defs truthy_hardware value_never)


lemma handleLock_lastActivityTime: "lastActivityTime (handleLock e s) = lastActivityTime s"
  by (simp add: handleLock_def Let_def setter_defs)

lemma useShowTransition_isLocked: "isLocked (useShowTransition w s) = isLocked s"
  by (simp add: useShowTransition_def)

lemma useShowTransition_lastActivityTime:
  "lastActivityTime (useShowTransition w s) = lastActivityTime s"
  by (simp add: useShowTransition_def)

lemma dispatch_unlocked:
  assumes "spec_autolock_never e \<or> spec_hardware_backed e" and "\<not> isLocked s"
  shows "\<not> isLocked (dispatch e ev s)"
proof (cases ev)
  case (IntervalTick now)
  then show ?thesis
    using assms
    by (simp add: dispatch_def intervalCheckEffect_def intervalCallback_def
        handleLock_guard_fails split: option.splits)
next
  case WindowLock
  then show ?thesis
    using assms by (simp add: dispatch_def handleLock_guard_fails)
next
  case (Host n)
  then show ?thesis
    using assms by (cases n) (simp_all add: dispatch_def handler_defs setter_defs)
next
  case (SubmitPassword verify haptic)
  then show ?thesis
    using assms
    by (simp add: dispatch_def handleSubmitPassword_def Let_def setter_defs
        split: awaited.splits)
qed (use assms in \<open>simp_all add: dispatch_def handler_defs setter_defs Let_def\<close>)

lemma step_unlocked:
  "spec_autolock_never e \<or> spec_hardware_backed e \<Longrightarrow> \<not> isLocked s \<Longrightarrow>
     \<not> isLocked (step e ev s)"
  by (simp add: step_def useShowTransition_isLocked dispatch_unlocked)

lemma run_unlocked:
  "spec_autolock_never e \<or> spec_hardware_backed e \<Longrightarrow> \<not> isLocked s \<Longrightarrow>
     \<not> isLocked (run e evs s)"
  by (induction evs arbitrary: s) (simp_all add: step_unlocked)

lemma dispatch_delegated_lastActivityTime:
  assumes "IS_DELEGATED_BOTTOM_SHEET e"
  shows "lastActivityTime (dispatch e ev s) = lastActivityTime s"
proof (cases ev)
  case (Host n)
  then show ?thesis
    by (cases n) (simp_all add: dispatch_def handler_defs setter_defs)
next
  case WindowLock
  then show ?thesis
    by (simp add: dispatch_def handleLock_lastActivityTime)
next
  case (SubmitPassword verify haptic)
  then show ?thesis
    by (simp add: dispatch_def handleSubmitPassword_def Let_def setter_defs
        split: awaited.splits)
qed (use assms in \<open>simp_all add: dispatch_def handler_defs setter_defs Let_def\<close>)

lemma run_delegated_lastActivityTime:
  "IS_DELEGATED_BOTTOM_SHEET e \<Longrightarrow> lastActivityTime (run e evs s) = lastActivityTime s"
  by (induction evs arbitrary: s)
     (simp_all add: step_def useShowTransition_lastActivityTime
        dispatch_delegated_lastActivityTime)


section \<open>Startup\<close>

text \<open>
  C1. At startup the component is locked exactly when the autolock value is not
  \<open>never\<close> (an absent value counts as \<open>never\<close>) and the account is not hardware-backed;
  in every other configuration it starts unlocked. The same holds for the state of a
  successful first render, and the overlay flag starts equal to the lock flag.
\<close>

theorem C1_initial_lock_state:
  "isLocked (initialState e now background)
     = (\<not> spec_autolock_never e \<and> \<not> spec_hardware_backed e)
   \<and> shouldRenderUi (initialState e now background) = isLocked (initialState e now background)
   \<and> (AppLocked_mount e now background = None
      \<or> AppLocked_mount e now background = Some (initialState e now background))"
proof -
  have "isLocked (initialState e now background)
          = (autolockValueOrDefault e \<noteq> ''never'' \<and> \<not> truthy (isHardwareAccount e))"
    by (simp add: initialState_def Let_def)
  moreover have "shouldRenderUi (initialState e now background)
          = isLocked (initialState e now background)"
    by (simp add: initialState_def Let_def)
  moreover have "AppLocked_mount e now background = None
      \<or> AppLocked_mount e now background = Some (initialState e now background)"
    by (cases "autolockPeriod e") (simp_all add: AppLocked_mount_def)
  ultimately show ?thesis using truthy_hardware value_never by simp
qed

theorem C1_initial_lock_state_witness:
  "isLocked (initialState (example_env (Some ''1'') None False) 0 False)
   \<and> \<not> isLocked (initialState (example_env (Some ''never'') None False) 0 False)
   \<and> \<not> isLocked (initialState (example_env None (Some False) False) 0 False)
   \<and> \<not> isLocked (initialState (example_env (Some ''1'') (Some True) False) 0 False)
   \<and> AppLocked_mount (example_env (Some ''1'') None False) 0 False
       = Some (initialState (example_env (Some ''1'') None False) 0 False)"
  using C1_initial_lock_state [of "example_env (Some ''1'') None False" 0 False]
    C1_initial_lock_state [of "example_env (Some ''never'') None False" 0 False]
    C1_initial_lock_state [of "example_env None (Some False) False" 0 False]
    C1_initial_lock_state [of "example_env (Some ''1'') (Some True) False" 0 False]
  by (simp add: spec_autolock_never_def spec_hardware_backed_def example_defs
      AppLocked_mount_def autolockPeriod_def autolockValueOrDefault_def)

section \<open>The lock guard\<close>

text \<open>
  C2. With a hardware-backed account or the period \<open>never\<close> the component starts
  unlocked and stays unlocked after every sequence of events (activity events and
  interval firings with any time stamps, and every other event of the model), and
  \<open>handleLock\<close> itself never sets the lock flag under either condition.
\<close>

theorem C2_guard_keeps_unlocked:
  assumes "spec_autolock_never e \<or> spec_hardware_backed e"
  shows "\<not> isLocked (run e evs (initialState e now background))
       \<and> (\<not> isLocked s \<longrightarrow> \<not> isLocked (handleLock e s) \<and> \<not> isLocked (run e evs s))"
proof -
  have "\<not> isLocked (initialState e now background)"
    using assms by (auto simp: initialState_def Let_def truthy_hardware value_never)
  then have "\<not> isLocked (run e evs (initialState e now background))"
    using assms by (simp add: run_unlocked)
  moreover have "\<not> isLocked s \<longrightarrow> \<not> isLocked (handleLock e s)"
    using assms by (simp add: handleLock_guard_fails)
  moreover have "\<not> isLocked s \<longrightarrow> \<not> isLocked (run e evs s)"
    using assms by (simp add: run_unlocked)
  ultimately show ?thesis by simp
qed

theorem C2_guard_keeps_unlocked_witness:
  "spec_hardware_backed (example_env (Some ''1'') (Some True) False)
   \<and> \<not> isLocked (run (example_env (Some ''1'') (Some True) False)
         [ActivityThrottled 1000, IntervalTick 5000, IntervalTick 100000, WindowLock,
          IntervalTick 105000]
         (initialState (example_env (Some ''1'') (Some True) False) 0 False))
   \<and> \<not> isLocked (initialState (example_env (Some ''1'') (Some True) False) 0 False)
   \<and> \<not> isLocked (handleLock (example_env (Some ''1'') (Some True) False)
         (initialState (example_env (Some ''1'') (Some True) False) 0 False))"
  using C2_guard_keeps_unlocked [of "example_env (Some ''1'') (Some True) False"
      "[ActivityThrottled 1000, IntervalTick 5000, IntervalTick 100000, WindowLock,
        IntervalTick 105000]" 0 False
      "initialState (example_env (Some ''1'') (Some True) False) 0 False"]
  by (simp add: spec_hardware_backed_def example_defs initialState_def
      autolockValueOrDefault_def)

section \<open>The periodic check\<close>








section \<open>Activity events\<close>

text \<open>
  C4. On a throttled activity event a delegated context sends the activity message to
  the primary context and leaves its own time stamp as it was; every other context sets
  the time stamp to the current time and sends nothing. In a delegated context no
  sequence of events of any kind writes the time stamp.
\<close>

theorem C4_activity_forwarded_or_recorded:
  "(IS_DELEGATED_BOTTOM_SHEET e \<longrightarrow>
       handleActivity e now s = s\<lparr>effects := effects s @ [submitAppLockActivityEvent]\<rparr>
     \<and> lastActivityTime (step e (ActivityThrottled now) s) = lastActivityTime s
     \<and> effects (step e (ActivityThrottled now) s) = effects s @ [submitAppLockActivityEvent]
     \<and> lastActivityTime (run e evs s) = lastActivityTime s)
   \<and> (\<not> IS_DELEGATED_BOTTOM_SHEET e \<longrightarrow>
       handleActivity e now s = s\<lparr>lastActivityTime := now\<rparr>
     \<and> lastActivityTime (step e (ActivityThrottled now) s) = now
     \<and> effects (step e (ActivityThrottled now) s) = effects s)"
proof -
  have "lastActivityTime (run e evs s) = lastActivityTime s" if "IS_DELEGATED_BOTTOM_SHEET e"
    using that by (rule run_delegated_lastActivityTime)
  moreover have "effects (useShowTransition w u) = effects u" for w u
    by (simp add: useShowTransition_def)
  ultimately show ?thesis
    by (simp add: step_def dispatch_def handleActivity_def call_def
        useShowTransition_lastActivityTime)
qed

theorem C4_activity_forwarded_or_recorded_witness:
  "IS_DELEGATED_BOTTOM_SHEET (example_env (Some ''1'') None True)
   \<and> effects (step (example_env (Some ''1'') None True) (ActivityThrottled 7000) example_locked)
       = [submitAppLockActivityEvent]
   \<and> lastActivityTime (run (example_env (Some ''1'') None True)
         [ActivityThrottled 7000, IntervalTick 9000, ActivityThrottled 12000] example_locked) = 0
   \<and> \<not> IS_DELEGATED_BOTTOM_SHEET (example_env (Some ''1'') None False)
   \<and> lastActivityTime
         (step (example_env (Some ''1'') None False) (ActivityThrottled 7000) example_locked)
       = 7000
   \<and> effects (step (example_env (Some ''1'') None False) (ActivityThrottled 7000) example_locked)
       = []"
  using C4_activity_forwarded_or_recorded [of "example_env (Some ''1'') None True" 7000
      example_locked "[ActivityThrottled 7000, IntervalTick 9000, ActivityThrottled 12000]"]
    C4_activity_forwarded_or_recorded [of "example_env (Some ''1'') None False" 7000
      example_locked "[]"]
  by (simp add: example_defs)

section \<open>Password submission\<close>

lemma useShowTransition_effects: "effects (useShowTransition w s) = effects s"
  by (simp add: useShowTransition_def)

lemma useShowTransition_shouldRenderUi:
  "shouldRenderUi (useShowTransition w s) = shouldRenderUi s"
  by (simp add: useShowTransition_def)

text \<open>
  The claim C5, that a submission unlocks exactly when the verification call returns an
  accepting result, fails in one direction: on a Capacitor build \<open>unlock()\<close> comes after
  the awaited haptic call, and when that call rejects the handler ends there. Locked,
  with the password accepted and the haptic call rejecting, the component is still
  locked.
\<close>

theorem C5_accepted_but_locked_counterexample:
  "isLocked example_locked
   \<and> isLocked
       (step ((example_env (Some ''1'') None False)\<lparr>IS_CAPACITOR := True\<rparr>)
          (SubmitPassword (Resolves (Some True)) Rejects) example_locked)"
  by (simp add: example_defs step_def dispatch_def handleSubmitPassword_def Let_def
      setter_defs useShowTransition_def)

text \<open>
  C5, amended. A password submission in the locked state unlocks only if the
  verification call resolved to \<open>true\<close>, and it does unlock whenever the call resolved to
  \<open>true\<close> and, on a Capacitor build, the awaited haptic call resolved as well. When the
  verification call resolves to any other value the handler only sets the message
  \<open>Wrong password, please try again.\<close> and the component stays locked; \<open>undefined\<close>,
  the value of a call that did not reach the service, is handled exactly as \<open>false\<close>.
  A rejecting verification call writes nothing.
\<close>

theorem C5_unlock_only_if_accepted:
  assumes "isLocked s"
  shows "(\<not> isLocked (step e (SubmitPassword verify haptic) s) \<longrightarrow> verify = Resolves (Some True))
       \<and> (verify = Resolves (Some True) \<and> (IS_CAPACITOR e \<longrightarrow> haptic = Resolves ()) \<longrightarrow>
            \<not> isLocked (step e (SubmitPassword verify haptic) s))
       \<and> (verify = Resolves result \<and> result \<noteq> Some True \<longrightarrow>
            handleSubmitPassword e verify haptic s
              = s\<lparr>passwordError := ''Wrong password, please try again.''\<rparr>
          \<and> isLocked (step e (SubmitPassword verify haptic) s))
       \<and> step e (SubmitPassword (Resolves None) haptic) s
           = step e (SubmitPassword (Resolves (Some False)) haptic) s
       \<and> handleSubmitPassword e Rejects haptic s = s"
proof -
  have falsy: "\<not> truthy r" if "r \<noteq> Some True" for r
    using that by (cases r) auto
  have locked: "isLocked (step e (SubmitPassword verify haptic) s)"
    if "verify \<noteq> Resolves (Some True)"
  proof (cases verify)
    case (Resolves r)
    then have "\<not> truthy r" using that falsy by simp
    then show ?thesis
      using assms Resolves
      by (simp add: step_def dispatch_def useShowTransition_isLocked
          handleSubmitPassword_def setter_defs)
  next
    case Rejects
    then show ?thesis
      using assms
      by (simp add: step_def dispatch_def useShowTransition_isLocked
          handleSubmitPassword_def)
  qed
  have only_if: "\<not> isLocked (step e (SubmitPassword verify haptic) s) \<longrightarrow>
      verify = Resolves (Some True)"
    using locked by blast
  have "if": "\<not> isLocked (step e (SubmitPassword verify haptic) s)"
    if "verify = Resolves (Some True)" "IS_CAPACITOR e \<longrightarrow> haptic = Resolves ()"
    using that
    by (simp add: step_def dispatch_def useShowTransition_isLocked
        handleSubmitPassword_def Let_def setter_defs)
  have rejected: "handleSubmitPassword e verify haptic s
              = s\<lparr>passwordError := ''Wrong password, please try again.''\<rparr>
          \<and> isLocked (step e (SubmitPassword verify haptic) s)"
    if "verify = Resolves result" "result \<noteq> Some True"
    using that falsy [of result] locked
    by (simp add: handleSubmitPassword_def setter_defs)
  have same: "step e (SubmitPassword (Resolves None) haptic) s
           = step e (SubmitPassword (Resolves (Some False)) haptic) s"
    by (simp add: step_def dispatch_def handleSubmitPassword_def)
  have throws: "handleSubmitPassword e Rejects haptic s = s"
    by (simp add: handleSubmitPassword_def)
  show ?thesis
    using only_if "if" rejected same throws by blast
qed

theorem C5_unlock_only_if_accepted_witness:
  "isLocked example_locked
   \<and> \<not> isLocked (step (example_env (Some ''1'') None False)
         (SubmitPassword (Resolves (Some True)) (Resolves ())) example_locked)
   \<and> \<not> IS_CAPACITOR (example_env (Some ''1'') None False)
   \<and> isLocked (step (example_env (Some ''1'') None False)
         (SubmitPassword (Resolves (Some False)) (Resolves ())) example_locked)
   \<and> isLocked (step (example_env (Some ''1'') None False)
         (SubmitPassword (Resolves None) (Resolves ())) example_locked)
   \<and> passwordError (handleSubmitPassword (example_env (Some ''1'') None False)
         (Resolves None) (Resolves ()) example_locked) = ''Wrong password, please try again.''
   \<and> IS_CAPACITOR ((example_env (Some ''1'') None False)\<lparr>IS_CAPACITOR := True\<rparr>)
   \<and> \<not> isLocked (step ((example_env (Some ''1'') None False)\<lparr>IS_CAPACITOR := True\<rparr>)
         (SubmitPassword (Resolves (Some True)) (Resolves ())) example_locked)"
proof -
  let ?e = "example_env (Some ''1'') None False"
  let ?c = "?e\<lparr>IS_CAPACITOR := True\<rparr>"
  have h: "isLocked example_locked" by (simp add: example_defs)
  have c: "\<not> IS_CAPACITOR ?e" "IS_CAPACITOR ?c"
    by (simp_all add: example_defs)
  have a: "\<not> isLocked (step ?e (SubmitPassword (Resolves (Some True)) (Resolves ()))
      example_locked)"
    using c(1) C5_unlock_only_if_accepted [OF h, where e = ?e
        and verify = "Resolves (Some True)" and haptic = "Resolves ()"]
    by blast
  have b: "isLocked (step ?e (SubmitPassword (Resolves (Some False)) (Resolves ()))
      example_locked)"
    using C5_unlock_only_if_accepted [OF h, where e = ?e
        and verify = "Resolves (Some False)" and haptic = "Resolves ()" and result = "Some False"]
    by blast
  have n: "isLocked (step ?e (SubmitPassword (Resolves None) (Resolves ())) example_locked)
      \<and> handleSubmitPassword ?e (Resolves None) (Resolves ()) example_locked
          = example_locked\<lparr>passwordError := ''Wrong password, please try again.''\<rparr>"
    using C5_unlock_only_if_accepted [OF h, where e = ?e
        and verify = "Resolves None" and haptic = "Resolves ()" and result = None]
    by blast
  have d: "\<not> isLocked (step ?c (SubmitPassword (Resolves (Some True)) (Resolves ()))
      example_locked)"
    using C5_unlock_only_if_accepted [OF h, where e = ?c
        and verify = "Resolves (Some True)" and haptic = "Resolves ()"]
    by blast
  from n have m: "passwordError (handleSubmitPassword ?e (Resolves None) (Resolves ())
      example_locked) = ''Wrong password, please try again.''"
    by simp
  show ?thesis
    using h c a b n d m by blast
qed

text \<open>
  C6. A rejected password submission leaves the time stamp of the last activity as it
  was, so the idle time measured at any moment is the same before and after it. It
  makes no outside call and changes neither the lock flag nor the overlay flag, and a
  firing of the interval that follows it in the locked state makes no outside call
  either and leaves the component locked.
\<close>

theorem C6_rejection_keeps_idle_time:
  assumes "\<not> truthy result"
  shows "lastActivityTime (step e (SubmitPassword (Resolves result) haptic) s) = lastActivityTime s
       \<and> now - lastActivityTime (step e (SubmitPassword (Resolves result) haptic) s) = now - lastActivityTime s
       \<and> effects (step e (SubmitPassword (Resolves result) haptic) s) = effects s
       \<and> isLocked (step e (SubmitPassword (Resolves result) haptic) s) = isLocked s
       \<and> shouldRenderUi (step e (SubmitPassword (Resolves result) haptic) s) = shouldRenderUi s
       \<and> (isLocked s \<longrightarrow>
            effects (step e (IntervalTick now) (step e (SubmitPassword (Resolves result) haptic) s)) = effects s
          \<and> isLocked (step e (IntervalTick now) (step e (SubmitPassword (Resolves result) haptic) s)))"
proof -
  let ?s' = "step e (SubmitPassword (Resolves result) haptic) s"
  have d: "dispatch e (SubmitPassword (Resolves result) haptic) s
             = s\<lparr>passwordError := ''Wrong password, please try again.''\<rparr>"
    using assms by (simp add: dispatch_def handleSubmitPassword_def setter_defs)
  have t: "lastActivityTime ?s' = lastActivityTime s"
    by (simp add: step_def d useShowTransition_lastActivityTime)
  have f: "effects ?s' = effects s"
    by (simp add: step_def d useShowTransition_effects)
  have l: "isLocked ?s' = isLocked s"
    by (simp add: step_def d useShowTransition_isLocked)
  have u: "shouldRenderUi ?s' = shouldRenderUi s"
    by (simp add: step_def d useShowTransition_shouldRenderUi)
  have tick: "effects (step e (IntervalTick now) ?s') = effects s
      \<and> isLocked (step e (IntervalTick now) ?s')" if "isLocked s"
  proof -
    have "isLocked ?s'" using that l by simp
    then have "dispatch e (IntervalTick now) ?s' = ?s'"
      by (simp add: dispatch_def intervalCallback_def split: option.splits)
    then show ?thesis
      using \<open>isLocked ?s'\<close> f
      by (simp add: step_def [of e "IntervalTick now"] useShowTransition_effects
          useShowTransition_isLocked)
  qed
  show ?thesis using t f l u tick by simp
qed

theorem C6_rejection_keeps_idle_time_witness:
  "\<not> truthy (Some False)
   \<and> isLocked example_locked
   \<and> lastActivityTime (step (example_env (Some ''1'') None False) (SubmitPassword (Resolves (Some False)) (Resolves ()))
         example_locked) = 0
   \<and> effects (step (example_env (Some ''1'') None False) (IntervalTick 40000)
         (step (example_env (Some ''1'') None False) (SubmitPassword (Resolves (Some False)) (Resolves ()))
            example_locked)) = []"
proof -
  have h: "\<not> truthy (Some False)" by simp
  show ?thesis
    using h C6_rejection_keeps_idle_time [OF h, where e = "example_env (Some ''1'') None False"
        and haptic = "Resolves ()" and s = example_locked and now = 40000]
    by (simp add: example_defs)
qed

section \<open>Unlocking\<close>

text \<open>
  C7. From the locked state an accepted submission whose awaited calls resolve clears
  the lock flag at once (on a Capacitor build after recording the accepted PIN and the
  haptic call) and leaves the overlay rendered while its exit transition runs. When the transition has completed,
  \<open>afterUnlockCallback\<close> runs once: the overlay is hidden, the slide is back at the
  button, and the outside calls made are, in this order, one \<open>show\<close> on the in-app
  browser (when there is one), one \<open>clearIsPinAccepted\<close>, and, in a delegating
  context only, one \<open>BottomSheet.show\<close>. A second completion event changes nothing.
  From the unlocked state, with no transition running, the callback does not run at all.
\<close>

theorem C7_unlock_side_effects_once:
  assumes "isLocked s"
  shows "(let s1 = step e (SubmitPassword (Resolves (Some True)) (Resolves ())) s;
              s2 = step e CloseTransitionEnd s1
          in \<not> isLocked s1
           \<and> shouldRenderUi s1 = shouldRenderUi s
           \<and> effects s1
               = effects s @ (if IS_CAPACITOR e then [setIsPinAccepted, vibrateOnSuccess] else [])
           \<and> \<not> isLocked s2
           \<and> \<not> shouldRenderUi s2
           \<and> slideForBiometricAuth s2 = button
           \<and> effects s2
               = effects s1
                 @ (if hasInAppBrowser e then [InAppBrowser_show] else [])
                 @ [clearIsPinAccepted]
                 @ (if IS_DELEGATING_BOTTOM_SHEET e then [BottomSheet_show] else [])
           \<and> step e CloseTransitionEnd s2 = s2)
       \<and> (\<not> isLocked u \<and> \<not> closeTransitionPending u \<longrightarrow>
            step e CloseTransitionEnd (step e (SubmitPassword (Resolves (Some True)) (Resolves ())) u)
              = step e (SubmitPassword (Resolves (Some True)) (Resolves ())) u
          \<and> shouldRenderUi (step e (SubmitPassword (Resolves (Some True)) (Resolves ())) u) = shouldRenderUi u)"
proof -
  define s1 where "s1 = step e (SubmitPassword (Resolves (Some True)) (Resolves ())) s"
  define s2 where "s2 = step e CloseTransitionEnd s1"
  have s1: "s1 = (if IS_CAPACITOR e
                  then s\<lparr>isLocked := False, closeTransitionPending := True,
                         effects := effects s @ [setIsPinAccepted, vibrateOnSuccess]\<rparr>
                  else s\<lparr>isLocked := False, closeTransitionPending := True\<rparr>)"
    using assms
    by (simp add: s1_def step_def dispatch_def handleSubmitPassword_def Let_def
        setter_defs useShowTransition_def)
  have a: "\<not> isLocked s1" and b: "shouldRenderUi s1 = shouldRenderUi s"
    and c: "effects s1
       = effects s @ (if IS_CAPACITOR e then [setIsPinAccepted, vibrateOnSuccess] else [])"
    and p: "closeTransitionPending s1"
    by (simp_all add: s1)
  have d: "dispatch e CloseTransitionEnd s1
             = afterUnlockCallback e (s1\<lparr>closeTransitionPending := False\<rparr>)"
    using p by (simp add: dispatch_def onCloseTransitionEnd_def)
  have s2: "\<not> isLocked s2" "\<not> shouldRenderUi s2" "slideForBiometricAuth s2 = button"
    "\<not> closeTransitionPending s2"
    "effects s2 = effects s1
                 @ (if hasInAppBrowser e then [InAppBrowser_show] else [])
                 @ [clearIsPinAccepted]
                 @ (if IS_DELEGATING_BOTTOM_SHEET e then [BottomSheet_show] else [])"
    using a
    by (simp_all add: s2_def step_def d afterUnlockCallback_def Let_def setter_defs
        useShowTransition_def)
  have once: "step e CloseTransitionEnd s2 = s2"
    using s2(1,4)
    by (simp add: step_def dispatch_def onCloseTransitionEnd_def useShowTransition_def)
  have unlocked: "step e CloseTransitionEnd (step e (SubmitPassword (Resolves (Some True)) (Resolves ())) u)
              = step e (SubmitPassword (Resolves (Some True)) (Resolves ())) u
          \<and> shouldRenderUi (step e (SubmitPassword (Resolves (Some True)) (Resolves ())) u) = shouldRenderUi u"
    if "\<not> isLocked u" "\<not> closeTransitionPending u"
    using that
    by (simp add: step_def dispatch_def handleSubmitPassword_def Let_def setter_defs
        useShowTransition_def onCloseTransitionEnd_def)
  show ?thesis
    using a b c s2(1,2,3,5) once unlocked
    unfolding Let_def s1_def [symmetric] s2_def [symmetric] by blast
qed

theorem C7_unlock_side_effects_once_witness:
  "isLocked example_locked
   \<and> effects (step (example_env (Some ''1'') None False) CloseTransitionEnd
        (step (example_env (Some ''1'') None False) (SubmitPassword (Resolves (Some True)) (Resolves ())) example_locked))
       = [InAppBrowser_show, clearIsPinAccepted]
   \<and> \<not> shouldRenderUi (step (example_env (Some ''1'') None False) CloseTransitionEnd
        (step (example_env (Some ''1'') None False) (SubmitPassword (Resolves (Some True)) (Resolves ())) example_locked))
   \<and> shouldRenderUi
        (step (example_env (Some ''1'') None False) (SubmitPassword (Resolves (Some True)) (Resolves ())) example_locked)
   \<and> \<not> isLocked (example_locked\<lparr>isLocked := False, shouldRenderUi := False\<rparr>)
   \<and> \<not> closeTransitionPending (example_locked\<lparr>isLocked := False, shouldRenderUi := False\<rparr>)
   \<and> step (example_env (Some ''1'') None False) CloseTransitionEnd
        (step (example_env (Some ''1'') None False) (SubmitPassword (Resolves (Some True)) (Resolves ()))
           (example_locked\<lparr>isLocked := False, shouldRenderUi := False\<rparr>))
       = step (example_env (Some ''1'') None False) (SubmitPassword (Resolves (Some True)) (Resolves ()))
           (example_locked\<lparr>isLocked := False, shouldRenderUi := False\<rparr>)"
proof -
  have h: "isLocked example_locked" by (simp add: example_defs)
  show ?thesis
    using h C7_unlock_side_effects_once [OF h, of "example_env (Some ''1'') None False"
        "example_locked\<lparr>isLocked := False, shouldRenderUi := False\<rparr>"]
    by (simp add: example_defs Let_def)
qed

section \<open>Starting the timer\<close>

text \<open>
  The claim C8, that no timer is started for the period \<open>never\<close> or a hardware-backed
  account, fails: in the primary context the effect registers the interval in both
  configurations, and with a hardware-backed account a firing after more than the
  period of idle time runs \<open>handleLock\<close>, which moves the slide from the password form to
  the button.
\<close>

theorem C8_timer_started_counterexample:
  "spec_autolock_never (example_env (Some ''never'') None False)
   \<and> intervalCheckEffect (example_env (Some ''never'') None False) = Some 5000
   \<and> spec_hardware_backed (example_env (Some ''1'') (Some True) False)
   \<and> intervalCheckEffect (example_env (Some ''1'') (Some True) False) = Some 5000
   \<and> slideForBiometricAuth (initialState (example_env (Some ''1'') (Some True) False) 0 False)
       = passwordForm
   \<and> slideForBiometricAuth
        (step (example_env (Some ''1'') (Some True) False) (IntervalTick 35000)
           (initialState (example_env (Some ''1'') (Some True) False) 0 False))
       = button"
  by (simp add: example_defs spec_autolock_never_def spec_hardware_backed_def
      intervalCheckEffect_def INTERVAL_CHECK_PERIOD_def initialState_def
      autolockValueOrDefault_def autolockPeriod_def step_def dispatch_def
      intervalCallback_def handleLock_def setter_defs useShowTransition_def)

text \<open>
  C8, amended. The interval is registered, with a period of 5000 ms, exactly when the
  context is not delegated, whatever the autolock value and the kind of account. With
  the period \<open>never\<close> or a hardware-backed account a firing of the interval changes
  neither the lock flag, the overlay flag, the time stamp of the last activity nor the
  error message, and makes no outside call.
\<close>

theorem C8_timer_started_unless_delegated:
  "(intervalCheckEffect e = None) = IS_DELEGATED_BOTTOM_SHEET e
   \<and> (\<not> IS_DELEGATED_BOTTOM_SHEET e \<longrightarrow> intervalCheckEffect e = Some 5000)
   \<and> (spec_autolock_never e \<or> spec_hardware_backed e \<longrightarrow>
        isLocked (step e (IntervalTick now) s) = isLocked s
      \<and> shouldRenderUi (step e (IntervalTick now) s) = shouldRenderUi s
      \<and> lastActivityTime (step e (IntervalTick now) s) = lastActivityTime s
      \<and> passwordError (step e (IntervalTick now) s) = passwordError s
      \<and> effects (step e (IntervalTick now) s) = effects s)"
proof -
  have "(intervalCheckEffect e = None) = IS_DELEGATED_BOTTOM_SHEET e"
    by (simp add: intervalCheckEffect_def)
  moreover have "\<not> IS_DELEGATED_BOTTOM_SHEET e \<longrightarrow> intervalCheckEffect e = Some 5000"
    by (simp add: intervalCheckEffect_def INTERVAL_CHECK_PERIOD_def)
  moreover have "isLocked (step e (IntervalTick now) s) = isLocked s
      \<and> shouldRenderUi (step e (IntervalTick now) s) = shouldRenderUi s
      \<and> lastActivityTime (step e (IntervalTick now) s) = lastActivityTime s
      \<and> passwordError (step e (IntervalTick now) s) = passwordError s
      \<and> effects (step e (IntervalTick now) s) = effects s"
    if "spec_autolock_never e \<or> spec_hardware_backed e"
  proof -
    have "dispatch e (IntervalTick now) s = s
        \<or> dispatch e (IntervalTick now) s = s\<lparr>slideForBiometricAuth := button\<rparr>"
      using that
      by (simp add: dispatch_def intervalCallback_def handleLock_guard_fails
          split: option.splits)
    then show ?thesis
      by (auto simp: step_def useShowTransition_def)
  qed
  ultimately show ?thesis by blast
qed

theorem C8_timer_started_unless_delegated_witness:
  "\<not> IS_DELEGATED_BOTTOM_SHEET (example_env None (Some True) False)
   \<and> intervalCheckEffect (example_env None (Some True) False) = Some 5000
   \<and> (spec_autolock_never (example_env None (Some True) False)
      \<or> spec_hardware_backed (example_env None (Some True) False))
   \<and> \<not> isLocked (step (example_env None (Some True) False) (IntervalTick 35000)
          (initialState (example_env None (Some True) False) 0 False))
   \<and> effects (step (example_env None (Some True) False) (IntervalTick 35000)
          (initialState (example_env None (Some True) False) 0 False)) = []"
  using C8_timer_started_unless_delegated [of "example_env None (Some True) False" 35000
      "initialState (example_env None (Some True) False) 0 False"]
  by (simp add: example_defs spec_hardware_backed_def initialState_def
      autolockValueOrDefault_def)

section \<open>Host notifications\<close>

text \<open>
  The claim C9, that entering the background moves a locked component from the password
  form back to the biometric prompt, fails: the component passes no callback for that
  notification, and the one callback it does pass, \<open>handleChangeSlideForBiometricAuth\<close>,
  selects the password form. Locked on the password form, the component is still on the
  password form after the notification, and also after a direct call of that callback.
\<close>

theorem C9_background_reset_counterexample:
  "isLocked example_locked
   \<and> slideForBiometricAuth example_locked = passwordForm
   \<and> slideForBiometricAuth
        (step ((example_env (Some ''1'') None False)\<lparr>isNonNativeBiometricAuthEnabled := True\<rparr>)
           (Host EnteredBackground) example_locked)
       \<noteq> button
   \<and> slideForBiometricAuth (handleChangeSlideForBiometricAuth example_locked) \<noteq> button"
  by (simp add: example_defs step_def dispatch_def useBackgroundMode_def
      handleChangeSlideForBiometricAuth_def setter_defs useShowTransition_def)

text \<open>
  C9, amended. The callback that the component registers for host notifications sets
  the credential slide to the password form in every state and changes nothing else; no
  host notification ever selects the biometric prompt. With the two callbacks of the
  hook taken in the order entered background, returned to foreground, entering the
  background leaves the state as it is and returning to the foreground selects the
  password form.
\<close>

theorem C9_host_callback_selects_password_form:
  "handleChangeSlideForBiometricAuth s = s\<lparr>slideForBiometricAuth := passwordForm\<rparr>
   \<and> dispatch e (Host EnteredBackground) s = s
   \<and> dispatch e (Host ReturnedToForeground) s = s\<lparr>slideForBiometricAuth := passwordForm\<rparr>
   \<and> slideForBiometricAuth (step e (Host EnteredBackground) s) = slideForBiometricAuth s
   \<and> slideForBiometricAuth (step e (Host ReturnedToForeground) s) = passwordForm
   \<and> isLocked (step e (Host n) s) = isLocked s
   \<and> effects (step e (Host n) s) = effects s"
proof -
  have c: "handleChangeSlideForBiometricAuth s = s\<lparr>slideForBiometricAuth := passwordForm\<rparr>"
    by (simp add: handleChangeSlideForBiometricAuth_def setter_defs)
  have b: "dispatch e (Host EnteredBackground) s = s"
    by (simp add: dispatch_def useBackgroundMode_def)
  have f: "dispatch e (Host ReturnedToForeground) s = s\<lparr>slideForBiometricAuth := passwordForm\<rparr>"
    by (simp add: dispatch_def useBackgroundMode_def c)
  have "slideForBiometricAuth (step e (Host EnteredBackground) s) = slideForBiometricAuth s"
    by (simp add: step_def b useShowTransition_def)
  moreover have "slideForBiometricAuth (step e (Host ReturnedToForeground) s) = passwordForm"
    by (simp add: step_def f useShowTransition_def)
  moreover have "isLocked (step e (Host n) s) = isLocked s"
    using b f by (cases n) (simp_all add: step_def useShowTransition_isLocked)
  moreover have "effects (step e (Host n) s) = effects s"
    using b f by (cases n) (simp_all add: step_def useShowTransition_effects)
  ultimately show ?thesis using c b f by simp
qed

theorem C9_host_callback_selects_password_form_witness:
  "slideForBiometricAuth
     (step (example_env (Some ''1'') None False) (Host EnteredBackground) example_locked)
     = passwordForm
   \<and> slideForBiometricAuth
       (step (example_env (Some ''1'') None False) (Host ReturnedToForeground)
          (example_locked\<lparr>slideForBiometricAuth := button\<rparr>))
     = passwordForm
   \<and> isLocked
       (step (example_env (Some ''1'') None False) (Host ReturnedToForeground) example_locked)"
  using C9_host_callback_selects_password_form [of example_locked
      "example_env (Some ''1'') None False" ReturnedToForeground]
    C9_host_callback_selects_password_form [of
      "example_locked\<lparr>slideForBiometricAuth := button\<rparr>"
      "example_env (Some ''1'') None False" ReturnedToForeground]
  by (simp add: example_defs)

section \<open>Locking with a failing guard\<close>

text \<open>
  C10. \<open>handleLock\<close> always leaves the credential slide at the button. When its guard
  fails (period \<open>never\<close> or hardware-backed account) that is all it does: the lock flag,
  the overlay flag and the trace of outside calls are as before. With no autolock value
  configured the value is \<open>never\<close>, the component starts unlocked, and \<open>handleLock\<close> is
  such a call.
\<close>

theorem C10_lock_always_resets_slide:
  "slideForBiometricAuth (handleLock e s) = button
   \<and> (spec_autolock_never e \<or> spec_hardware_backed e \<longrightarrow>
        handleLock e s = s\<lparr>slideForBiometricAuth := button\<rparr>)
   \<and> (autolockValue e = None \<longrightarrow>
        autolockValueOrDefault e = ''never''
      \<and> \<not> isLocked (initialState e now background)
      \<and> handleLock e s = s\<lparr>slideForBiometricAuth := button\<rparr>)"
proof -
  have "slideForBiometricAuth (handleLock e s) = button"
    by (simp add: handleLock_def Let_def setter_defs)
  moreover have "spec_autolock_never e \<or> spec_hardware_backed e \<longrightarrow>
        handleLock e s = s\<lparr>slideForBiometricAuth := button\<rparr>"
    by (simp add: handleLock_guard_fails)
  moreover have "autolockValueOrDefault e = ''never''
      \<and> \<not> isLocked (initialState e now background)
      \<and> handleLock e s = s\<lparr>slideForBiometricAuth := button\<rparr>"
    if "autolockValue e = None"
  proof -
    have n: "spec_autolock_never e"
      using that by (simp add: spec_autolock_never_def)
    then have "autolockValueOrDefault e = ''never''"
      by (simp add: value_never)
    then show ?thesis
      using n by (simp add: initialState_def Let_def handleLock_guard_fails)
  qed
  ultimately show ?thesis by blast
qed

theorem C10_lock_always_resets_slide_witness:
  "autolockValue (example_env None None False) = None
   \<and> spec_autolock_never (example_env None None False)
   \<and> \<not> isLocked (initialState (example_env None None False) 0 False)
   \<and> slideForBiometricAuth (initialState (example_env None None False) 0 False) = passwordForm
   \<and> handleLock (example_env None None False) (initialState (example_env None None False) 0 False)
       = (initialState (example_env None None False) 0 False)\<lparr>slideForBiometricAuth := button\<rparr>
   \<and> spec_hardware_backed (example_env (Some ''1'') (Some True) False)
   \<and> handleLock (example_env (Some ''1'') (Some True) False) example_locked
       = example_locked\<lparr>slideForBiometricAuth := button\<rparr>"
  using C10_lock_always_resets_slide [of "example_env None None False"
      "initialState (example_env None None False) 0 False" 0 False]
    C10_lock_always_resets_slide [of "example_env (Some ''1'') (Some True) False"
      example_locked 0 False]
  by (simp add: example_defs spec_autolock_never_def spec_hardware_backed_def
      initialState_def autolockValueOrDefault_def)

end
